theory Spec2Isabelle
  imports Complex_Main "HOL-Library.Word"
begin

section \<open>JavaScript strings\<close>

text \<open>
  A JavaScript string is a sequence of 16-bit UTF-16 code units; \<open>trim\<close>, the regular
  expression of \<open>replace\<close>, property keys and string equality all work on code units.
  The literals of the program are ASCII and are written \<open>js ''...''\<close>.
\<close>

type_synonym jsstring = "16 word list"

definition unit :: "char \<Rightarrow> 16 word" where
  "unit c = word_of_nat (of_char c)"

definition js :: "string \<Rightarrow> jsstring" where
  "js s = map unit s"

section \<open>Platform Registry: \<open>getPlatformConfig\<close>\<close>

record platform_config =
  host :: jsstring
  target :: jsstring
  build :: jsstring

text \<open>
  The object literal \<open>configs\<close>, rebuilt at every call from \<open>napiBuildCommand\<close>:
  its own properties in source order.
\<close>

definition configs :: "jsstring \<Rightarrow> (jsstring \<times> platform_config) list" where
  "configs napiBuildCommand = [
     (js ''x86_64-apple-darwin'',
        \<lparr>host = js ''macos-latest'', target = js ''x86_64-apple-darwin'',
         build = napiBuildCommand @ js '' --target x86_64-apple-darwin''\<rparr>),
     (js ''x86_64-pc-windows-msvc'',
        \<lparr>host = js ''windows-latest'', target = js ''x86_64-pc-windows-msvc'',
         build = napiBuildCommand @ js '' --target x86_64-pc-windows-msvc''\<rparr>),
     (js ''i686-pc-windows-msvc'',
        \<lparr>host = js ''windows-latest'', target = js ''i686-pc-windows-msvc'',
         build = napiBuildCommand @ js '' --target i686-pc-windows-msvc''\<rparr>),
     (js ''x86_64-unknown-linux-gnu'',
        \<lparr>host = js ''ubuntu-22.04'', target = js ''x86_64-unknown-linux-gnu'',
         build = napiBuildCommand @ js '' --target x86_64-unknown-linux-gnu --use-napi-cross''\<rparr>),
     (js ''x86_64-unknown-linux-musl'',
        \<lparr>host = js ''ubuntu-22.04'', target = js ''x86_64-unknown-linux-musl'',
         build = napiBuildCommand @ js '' --target x86_64-unknown-linux-musl -x''\<rparr>),
     (js ''aarch64-apple-darwin'',
        \<lparr>host = js ''macos-latest'', target = js ''aarch64-apple-darwin'',
         build = napiBuildCommand @ js '' --target aarch64-apple-darwin''\<rparr>),
     (js ''aarch64-unknown-linux-gnu'',
        \<lparr>host = js ''ubuntu-22.04'', target = js ''aarch64-unknown-linux-gnu'',
         build = napiBuildCommand @ js '' --target aarch64-unknown-linux-gnu --use-cross''\<rparr>),
     (js ''armv7-unknown-linux-gnueabihf'',
        \<lparr>host = js ''ubuntu-22.04'', target = js ''armv7-unknown-linux-gnueabihf'',
         build = napiBuildCommand @ js '' --target armv7-unknown-linux-gnueabihf --use-cross''\<rparr>),
     (js ''aarch64-linux-android'',
        \<lparr>host = js ''ubuntu-22.04'', target = js ''aarch64-linux-android'',
         build = napiBuildCommand @ js '' --target aarch64-linux-android''\<rparr>),
     (js ''armv7-linux-androideabi'',
        \<lparr>host = js ''ubuntu-22.04'', target = js ''armv7-linux-androideabi'',
         build = napiBuildCommand @ js '' --target armv7-linux-androideabi''\<rparr>),
     (js ''aarch64-unknown-linux-musl'',
        \<lparr>host = js ''ubuntu-22.04'', target = js ''aarch64-unknown-linux-musl'',
         build = napiBuildCommand @ js '' --target aarch64-unknown-linux-musl -x''\<rparr>),
     (js ''aarch64-pc-windows-msvc'',
        \<lparr>host = js ''windows-latest'', target = js ''aarch64-pc-windows-msvc'',
         build = napiBuildCommand @ js '' --target aarch64-pc-windows-msvc''\<rparr>),
     (js ''x86_64-unknown-freebsd'',
        \<lparr>host = js ''ubuntu-22.04'', target = js ''x86_64-unknown-freebsd'',
         build = napiBuildCommand @ js '' --target x86_64-unknown-freebsd --use-cross''\<rparr>),
     (js ''aarch64-unknown-freebsd'',
        \<lparr>host = js ''ubuntu-22.04'', target = js ''aarch64-unknown-freebsd'',
         build = napiBuildCommand @
           js '' --target aarch64-unknown-freebsd --use-cross -- -Zbuild-std=core,std,alloc,proc_macro,panic_abort''\<rparr>),
     (js ''riscv64gc-unknown-linux-gnu'',
        \<lparr>host = js ''ubuntu-22.04'', target = js ''riscv64gc-unknown-linux-gnu'',
         build = napiBuildCommand @ js '' --target riscv64gc-unknown-linux-gnu --use-cross''\<rparr>),
     (js ''riscv64gc-unknown-linux-musl'',
        \<lparr>host = js ''ubuntu-22.04'', target = js ''riscv64gc-unknown-linux-musl'',
         build = napiBuildCommand @ js '' --target riscv64gc-unknown-linux-musl --use-cross''\<rparr>)]"

text \<open>The keys of the table; they do not depend on the build command.\<close>

definition supported_targets :: "jsstring list" where
  "supported_targets = map fst (configs [])"

text \<open>
  \<open>configs[target]\<close> is an ordinary property read: when \<open>configs\<close> has no own property
  \<open>target\<close>, the read continues in its prototype, the built-in \<open>Object.prototype\<close>.
  The members of \<open>Object.prototype\<close> (ECMAScript, with the legacy accessors that Node.js
  provides) are functions, except \<open>__proto__\<close>, whose getter returns the prototype object
  itself.
\<close>

datatype jsvalue =
    Config platform_config
  | BuiltinFunction jsstring
  | ObjectPrototype
  | Null

definition object_prototype_keys :: "jsstring list" where
  "object_prototype_keys = [
     js ''constructor'', js ''__defineGetter__'', js ''__defineSetter__'',
     js ''hasOwnProperty'', js ''__lookupGetter__'', js ''__lookupSetter__'',
     js ''isPrototypeOf'', js ''propertyIsEnumerable'', js ''toString'', js ''valueOf'',
     js ''__proto__'', js ''toLocaleString'']"

definition object_prototype_get :: "jsstring \<Rightarrow> jsvalue option" where
  "object_prototype_get key =
     (if key = js ''__proto__'' then Some ObjectPrototype
      else if key \<in> set object_prototype_keys then Some (BuiltinFunction key)
      else None)"

text \<open>Truthiness of the values a property read of \<open>configs\<close> can give: every object
  and function is truthy, \<open>null\<close> is not.\<close>

fun truthy :: "jsvalue \<Rightarrow> bool" where
  "truthy Null = False"
| "truthy _ = True"

text \<open>\<open>return configs[target] || null\<close>: an own property wins, then the prototype chain;
  a missing property reads as \<open>undefined\<close>, which \<open>||\<close> replaces by \<open>null\<close>.\<close>

definition getPlatformConfig :: "jsstring \<Rightarrow> jsstring \<Rightarrow> jsvalue" where
  "getPlatformConfig tgt napiBuildCommand =
     (case map_of (configs napiBuildCommand) tgt of
        Some c \<Rightarrow> Config c
      | None \<Rightarrow> (case object_prototype_get tgt of Some v \<Rightarrow> v | None \<Rightarrow> Null))"

section \<open>The manifest: values produced by \<open>JSON.parse\<close>\<close>

text \<open>
  \<open>JSON.parse\<close> yields \<open>null\<close>, booleans, numbers, strings, arrays and plain objects.
  The program never computes with a number, so its value is kept as a rational; an
  object is the list of its own properties.
\<close>

datatype json =
    JNull
  | JBool bool
  | JNum rat
  | JStr jsstring
  | JArr "json list"
  | JObj "(jsstring \<times> json) list"

text \<open>
  \<open>v?.key\<close> for the keys \<open>napi\<close> and \<open>targets\<close>; \<open>None\<close> is \<open>undefined\<close>. The optional
  chain gives \<open>undefined\<close> on \<open>undefined\<close> and \<open>null\<close>. On an object it reads the own
  property; neither key is an array index, \<open>length\<close> or a member of a built-in
  prototype, so on every other value, and on an object without the key, the read
  gives \<open>undefined\<close>.
\<close>

fun optional_get :: "json option \<Rightarrow> jsstring \<Rightarrow> json option" where
  "optional_get None key = None"
| "optional_get (Some JNull) key = None"
| "optional_get (Some (JObj props)) key = map_of props key"
| "optional_get (Some _) key = None"

text \<open>\<open>packageJson?.napi?.targets\<close>.\<close>

definition napi_targets :: "json \<Rightarrow> json option" where
  "napi_targets packageJson =
     optional_get (optional_get (Some packageJson) (js ''napi'')) (js ''targets'')"

fun json_truthy :: "json option \<Rightarrow> bool" where
  "json_truthy None = False"
| "json_truthy (Some JNull) = False"
| "json_truthy (Some (JBool b)) = b"
| "json_truthy (Some (JNum n)) = (n \<noteq> 0)"
| "json_truthy (Some (JStr s)) = (s \<noteq> [])"
| "json_truthy (Some (JArr xs)) = True"
| "json_truthy (Some (JObj props)) = True"

fun isArray :: "json option \<Rightarrow> bool" where
  "isArray (Some (JArr xs)) = True"
| "isArray _ = False"

text \<open>The elements of an array; read only after \<open>isArray\<close> has held.\<close>

fun elements :: "json option \<Rightarrow> json list" where
  "elements (Some (JArr xs)) = xs"
| "elements _ = []"

section \<open>Cleaning a target: \<open>target.trim().replace(/\r?\n|\r/g, '')\<close>\<close>

text \<open>The code units \<open>String.prototype.trim\<close> strips: ECMAScript's WhiteSpace and
  LineTerminator.\<close>

definition is_space :: "16 word \<Rightarrow> bool" where
  "is_space c \<longleftrightarrow>
     c = 0x0009 \<or> c = 0x000A \<or> c = 0x000B \<or> c = 0x000C \<or> c = 0x000D \<or> c = 0x0020 \<or>
     c = 0x00A0 \<or> c = 0x1680 \<or> (0x2000 \<le> c \<and> c \<le> 0x200A) \<or> c = 0x2028 \<or>
     c = 0x2029 \<or> c = 0x202F \<or> c = 0x205F \<or> c = 0x3000 \<or> c = 0xFEFF"

definition trim :: "jsstring \<Rightarrow> jsstring" where
  "trim s = rev (dropWhile is_space (rev (dropWhile is_space s)))"

definition CR :: "16 word" where "CR = 0x000D"
definition LF :: "16 word" where "LF = 0x000A"

text \<open>Global replacement of the matches of \<open>\r?\n|\r\<close> by the empty string, scanning
  from the left: at a carriage return followed by a line feed the first alternative
  takes both, at a line feed it takes one, at any other carriage return the second
  alternative takes it.\<close>

fun replace_newlines :: "jsstring \<Rightarrow> jsstring" where
  "replace_newlines [] = []"
| "replace_newlines [c] = (if c = CR \<or> c = LF then [] else [c])"
| "replace_newlines (c # d # s) =
     (if c = CR \<and> d = LF then replace_newlines s
      else if c = LF then replace_newlines (d # s)
      else if c = CR then replace_newlines (d # s)
      else c # replace_newlines (d # s))"

definition clean :: "jsstring \<Rightarrow> jsstring" where
  "clean tgt = replace_newlines (trim tgt)"

section \<open>\<open>JSON.stringify\<close> on the values the action serialises\<close>

definition hex_digit :: "nat \<Rightarrow> 16 word" where
  "hex_digit n = (if n < 10 then 0x30 + word_of_nat n else 0x61 + word_of_nat (n - 10))"

text \<open>\<open>\uXXXX\<close> with four lower-case hexadecimal digits.\<close>

definition unicode_escape :: "16 word \<Rightarrow> jsstring" where
  "unicode_escape c =
     [0x5C, 0x75, hex_digit (unat c div 4096), hex_digit (unat c div 256 mod 16),
      hex_digit (unat c div 16 mod 16), hex_digit (unat c mod 16)]"

definition is_high_surrogate :: "16 word \<Rightarrow> bool" where
  "is_high_surrogate c \<longleftrightarrow> 0xD800 \<le> c \<and> c \<le> 0xDBFF"

definition is_low_surrogate :: "16 word \<Rightarrow> bool" where
  "is_low_surrogate c \<longleftrightarrow> 0xDC00 \<le> c \<and> c \<le> 0xDFFF"

text \<open>The body of ECMAScript's QuoteJSONString, code point by code point: the short
  escapes, \<open>\uXXXX\<close> for the other control characters and for a surrogate without
  its partner, every other code point as it is.\<close>

fun quote_units :: "jsstring \<Rightarrow> jsstring" where
  "quote_units [] = []"
| "quote_units (c # s) =
     (if c = 0x08 then [0x5C, 0x62] @ quote_units s
      else if c = 0x09 then [0x5C, 0x74] @ quote_units s
      else if c = 0x0A then [0x5C, 0x6E] @ quote_units s
      else if c = 0x0C then [0x5C, 0x66] @ quote_units s
      else if c = 0x0D then [0x5C, 0x72] @ quote_units s
      else if c = 0x22 then [0x5C, 0x22] @ quote_units s
      else if c = 0x5C then [0x5C, 0x5C] @ quote_units s
      else if c < 0x20 then unicode_escape c @ quote_units s
      else if is_high_surrogate c then
        (case s of
           [] \<Rightarrow> unicode_escape c
         | d # r \<Rightarrow>
             if is_low_surrogate d then c # d # quote_units r
             else unicode_escape c @ quote_units s)
      else if is_low_surrogate c then unicode_escape c @ quote_units s
      else c # quote_units s)"

definition quote :: "jsstring \<Rightarrow> jsstring" where
  "quote s = [0x22] @ quote_units s @ [0x22]"

fun join :: "jsstring \<Rightarrow> jsstring list \<Rightarrow> jsstring" where
  "join sep [] = []"
| "join sep [x] = x"
| "join sep (x # y # xs) = x @ sep @ join sep (y # xs)"

text \<open>An element of the \<open>settings\<close> array. A configuration object serialises with its
  three properties in insertion order. A function has no JSON form and becomes \<open>null\<close>
  inside an array; \<open>Object.prototype\<close> has no enumerable own property and becomes
  \<open>{}\<close>.\<close>

fun stringify_item :: "jsvalue \<Rightarrow> jsstring" where
  "stringify_item (Config c) =
     js ''{'' @ quote (js ''host'') @ js '':'' @ quote (host c) @ js '','' @
     quote (js ''target'') @ js '':'' @ quote (target c) @ js '','' @
     quote (js ''build'') @ js '':'' @ quote (build c) @ js ''}''"
| "stringify_item (BuiltinFunction name) = js ''null''"
| "stringify_item ObjectPrototype = js ''{}''"
| "stringify_item Null = js ''null''"

text \<open>\<open>JSON.stringify({ settings: matrixItems })\<close>.\<close>

definition stringify_matrix :: "jsvalue list \<Rightarrow> jsstring" where
  "stringify_matrix matrixItems =
     js ''{'' @ quote (js ''settings'') @ js '':['' @
     join (js '','') (map stringify_item matrixItems) @ js '']}''"

text \<open>\<open>JSON.stringify(napiTargets)\<close>. It runs only after the loop has called \<open>trim\<close> on
  every element, so every element is a string there; an element of another kind, which
  cannot reach this call, is written \<open>null\<close>.\<close>

fun stringify_element :: "json \<Rightarrow> jsstring" where
  "stringify_element (JStr s) = quote s"
| "stringify_element _ = js ''null''"

definition stringify_targets :: "json list \<Rightarrow> jsstring" where
  "stringify_targets napiTargets =
     js ''['' @ join (js '','') (map stringify_element napiTargets) @ js '']''"

section \<open>The environment of the action\<close>

text \<open>What the action finds at \<open>packageJsonPath\<close>: no file (\<open>fs.existsSync\<close> is false), a
  file that \<open>fs.readFileSync\<close> or \<open>JSON.parse\<close> rejects with the given message, or a file
  whose content parses to a value.\<close>

datatype manifest_file = Absent | Failing jsstring | Parsed json

text \<open>Node.js as the action uses it: the file system, \<open>path.dirname\<close> (which depends on
  the platform), and the message of the TypeError the engine raises when \<open>trim\<close> is
  called on a value that is not a string.\<close>

record node =
  read_manifest :: "jsstring \<Rightarrow> manifest_file"
  dirname :: "jsstring \<Rightarrow> jsstring"
  type_error_message :: "json \<Rightarrow> jsstring"

text \<open>\<open>path.posix.dirname\<close> of Node.js: the scan from the last code unit down to index 1
  for the slash that ends the directory part, skipping trailing slashes.\<close>

fun dirname_end :: "jsstring \<Rightarrow> nat \<Rightarrow> bool \<Rightarrow> nat option" where
  "dirname_end path 0 matchedSlash = None"
| "dirname_end path (Suc i) matchedSlash =
     (if path ! Suc i = 0x2F then
        (if \<not> matchedSlash then Some (Suc i) else dirname_end path i matchedSlash)
      else dirname_end path i False)"

definition posix_dirname :: "jsstring \<Rightarrow> jsstring" where
  "posix_dirname path =
     (if length path = 0 then js ''.''
      else
        let hasRoot = (path ! 0 = 0x2F) in
        case dirname_end path (length path - 1) True of
          None \<Rightarrow> if hasRoot then js ''/'' else js ''.''
        | Some e \<Rightarrow> if hasRoot \<and> e = 1 then js ''//'' else take e path)"

text \<open>The \<open>core\<close> object of GitHub Actions, as far as the action uses it: the outputs
  set so far, in the order of the \<open>setOutput\<close> calls, and the failure message.\<close>

record core =
  outputs :: "(jsstring \<times> jsstring) list"
  failed :: "jsstring option"

definition setOutput :: "jsstring \<Rightarrow> jsstring \<Rightarrow> core \<Rightarrow> core" where
  "setOutput name v c = c\<lparr>outputs := outputs c @ [(name, v)]\<rparr>"

definition setFailed :: "jsstring \<Rightarrow> core \<Rightarrow> core" where
  "setFailed msg c = c\<lparr>failed := Some msg\<rparr>"

definition fresh_core :: core where
  "fresh_core = \<lparr>outputs = [], failed = None\<rparr>"

section \<open>Matrix Generator: \<open>action\<close>\<close>

datatype error =
    ManifestNotFound jsstring
  | ReadOrParseError jsstring
  | NoTargetsDeclared
  | TypeError jsstring
  | UnsupportedTargets "jsstring list"

text \<open>The \<open>message\<close> of the thrown error, which the \<open>catch\<close> block hands to
  \<open>core.setFailed\<close>.\<close>

fun message :: "error \<Rightarrow> jsstring" where
  "message (ManifestNotFound packageJsonPath) =
     js ''Error: '' @ packageJsonPath @ js '' not found''"
| "message (ReadOrParseError m) = m"
| "message NoTargetsDeclared = js ''Error: No napi.targets found in package.json''"
| "message (TypeError m) = m"
| "message (UnsupportedTargets unsupportedTargets) =
     js ''Error: Unsupported targets found: '' @ join (js '', '') unsupportedTargets"

text \<open>The \<open>for\<close> loop over \<open>napiTargets\<close>, with its two accumulators. \<open>target.trim\<close> is a
  function only when \<open>target\<close> is a string: on any other element the call raises a
  TypeError, which leaves the loop.\<close>

fun process_targets ::
  "node \<Rightarrow> jsstring \<Rightarrow> json list \<Rightarrow> jsvalue list \<times> jsstring list \<Rightarrow>
   error + jsvalue list \<times> jsstring list" where
  "process_targets nd napiBuildCommand [] acc = Inr acc"
| "process_targets nd napiBuildCommand (JStr tgt # rest) (matrixItems, unsupportedTargets) =
     (let cleanTarget = clean tgt;
          config = getPlatformConfig cleanTarget napiBuildCommand
      in if truthy config
         then process_targets nd napiBuildCommand rest (matrixItems @ [config], unsupportedTargets)
         else process_targets nd napiBuildCommand rest (matrixItems, unsupportedTargets @ [cleanTarget]))"
| "process_targets nd napiBuildCommand (v # rest) acc = Inl (TypeError (type_error_message nd v))"

text \<open>The body of the \<open>try\<close> block, threading \<open>core\<close>; \<open>Inl\<close> is a thrown error. The calls
  of \<open>console.log\<close> and \<open>console.error\<close> change nothing the action reads or returns and
  are left out.\<close>

definition try_block :: "node \<Rightarrow> core \<Rightarrow> jsstring \<Rightarrow> jsstring \<Rightarrow> (error + unit) \<times> core" where
  "try_block nd c packageJsonPath napiBuildCommand =
     (case read_manifest nd packageJsonPath of
        Absent \<Rightarrow> (Inl (ManifestNotFound packageJsonPath), c)
      | Failing m \<Rightarrow> (Inl (ReadOrParseError m), c)
      | Parsed packageJson \<Rightarrow>
          let napiTargets = napi_targets packageJson
          in if \<not> json_truthy napiTargets \<or> \<not> isArray napiTargets \<or> length (elements napiTargets) = 0
             then (Inl NoTargetsDeclared, c)
             else
               (case process_targets nd napiBuildCommand (elements napiTargets) ([], []) of
                  Inl e \<Rightarrow> (Inl e, c)
                | Inr (matrixItems, unsupportedTargets) \<Rightarrow>
                    if length unsupportedTargets > 0
                    then (Inl (UnsupportedTargets unsupportedTargets), c)
                    else
                      let matrixJson = stringify_matrix matrixItems;
                          c1 = setOutput (js ''matrix'') matrixJson c;
                          c2 = setOutput (js ''targets'') (stringify_targets (elements napiTargets)) c1;
                          bindingDirectory = dirname nd packageJsonPath;
                          c3 = setOutput (js ''binding-directory'') bindingDirectory c2
                      in (Inr (), c3)))"

text \<open>\<open>action\<close>: the \<open>try\<close> block, and the \<open>catch\<close> block that records the message with
  \<open>core.setFailed\<close> and throws the error again.\<close>

definition action :: "node \<Rightarrow> core \<Rightarrow> jsstring \<Rightarrow> jsstring \<Rightarrow> (error + unit) \<times> core" where
  "action nd c packageJsonPath napiBuildCommand =
     (case try_block nd c packageJsonPath napiBuildCommand of
        (Inl e, c') \<Rightarrow> (Inl e, setFailed (message e) c')
      | (Inr u, c') \<Rightarrow> (Inr u, c'))"

text \<open>The identifiers of a declared list for which the lookup gives \<open>null\<close>, cleaned, in
  the order of the list: what the loop collects in \<open>unsupportedTargets\<close>.\<close>

definition unresolved :: "jsstring \<Rightarrow> jsstring list \<Rightarrow> jsstring list" where
  "unresolved napiBuildCommand ts =
     filter (\<lambda>t. getPlatformConfig t napiBuildCommand = Null) (map clean ts)"

text \<open>\<open>core\<close> after the three \<open>setOutput\<close> calls of a run over the declared strings \<open>ts\<close>.\<close>

definition emitted :: "node \<Rightarrow> core \<Rightarrow> jsstring \<Rightarrow> jsstring \<Rightarrow> jsstring list \<Rightarrow> core" where
  "emitted nd c packageJsonPath napiBuildCommand ts =
     c\<lparr>outputs := outputs c @
        [(js ''matrix'', stringify_matrix (map (\<lambda>t. getPlatformConfig (clean t) napiBuildCommand) ts)),
         (js ''targets'', stringify_targets (map JStr ts)),
         (js ''binding-directory'', dirname nd packageJsonPath)]\<rparr>"

section \<open>An environment for the examples\<close>

text \<open>The manifest \<open>{"napi": {"targets": [...]}}\<close> with the given strings.\<close>

definition manifest_with_targets :: "jsstring list \<Rightarrow> json" where
  "manifest_with_targets ts = JObj [(js ''napi'', JObj [(js ''targets'', JArr (map JStr ts))])]"

text \<open>A checkout whose only manifest is \<open>crates/binding/package.json\<close> (the default path
  of the action), on a runner with POSIX paths. The TypeError message is the one V8 gives
  for an element that is a number, a boolean, an array or an object.\<close>

definition example_node :: "json \<Rightarrow> node" where
  "example_node manifest =
     \<lparr>read_manifest = (\<lambda>path. if path = js ''crates/binding/package.json'' then Parsed manifest else Absent),
      dirname = posix_dirname,
      type_error_message = (\<lambda>v. js ''target.trim is not a function'')\<rparr>"

section \<open>Facts about strings\<close>

lemma len16: "LENGTH(16) = 16"
  by simp

lemma unit_inj: "unit a = unit b \<longleftrightarrow> a = b"
proof
  assume h: "unit a = unit b"
  have lt: "of_char c < (2::nat) ^ 16" for c :: char
  proof -
    have "of_char c < (256::nat)" by (rule of_char_mod_256 [where ?'a = nat, THEN subst]) simp
    moreover have "(256::nat) < 2 ^ 16" by simp
    ultimately show ?thesis by (rule less_trans)
  qed
  have un: "unat (unit c) = of_char c" for c
    unfolding unit_def unat_of_nat using lt [of c] by (simp only: len16 mod_less)
  from h have "unat (unit a) = unat (unit b)" by (rule arg_cong)
  with un have "(of_char a :: nat) = of_char b" by simp
  then show "a = b" by simp
qed simp

lemma js_eq_iff [simp]: "js a = js b \<longleftrightarrow> a = b"
  unfolding js_def
proof (induction a arbitrary: b)
  case Nil
  then show ?case by auto
next
  case (Cons x xs)
  then show ?case by (cases b) (auto simp: unit_inj)
qed

lemma js_append: "js (a @ b) = js a @ js b"
  by (simp add: js_def)

lemma js_Nil: "js [] = []"
  by (simp add: js_def)

lemma js_Cons: "js (c # s) = unit c # js s"
  by (simp add: js_def)

section \<open>The Registry\<close>

lemma keys_configs: "map fst (configs cmd) = supported_targets"
  by (simp add: supported_targets_def configs_def)

lemma distinct_supported: "distinct supported_targets"
  by (simp add: supported_targets_def configs_def)

lemma lookup_own: "(k, e) \<in> set (configs cmd) \<Longrightarrow> getPlatformConfig k cmd = Config e"
proof -
  assume h: "(k, e) \<in> set (configs cmd)"
  have "distinct (map fst (configs cmd))"
    by (simp only: keys_configs distinct_supported)
  then have "map_of (configs cmd) k = Some e"
    using h by (rule map_of_is_SomeI)
  then show ?thesis by (simp add: getPlatformConfig_def)
qed

lemma hosts: "(k, e) \<in> set (configs cmd) \<Longrightarrow>
   host e \<in> {js ''macos-latest'', js ''windows-latest'', js ''ubuntu-22.04''} \<and> target e = k"
  by (auto simp add: configs_def)

lemma build_shape: "(k, e) \<in> set (configs cmd) \<Longrightarrow>
   \<exists>sfx \<in> {js '''', js '' --use-napi-cross'', js '' -x'', js '' --use-cross'',
     js '' --use-cross -- -Zbuild-std=core,std,alloc,proc_macro,panic_abort''}.
      build e = cmd @ js '' --target '' @ k @ sfx"
  by (auto simp add: configs_def js_append [symmetric])

lemma own_entry: "k \<in> set supported_targets \<Longrightarrow> \<exists>e. (k, e) \<in> set (configs cmd)"
proof -
  assume "k \<in> set supported_targets"
  then have "k \<in> fst ` set (configs cmd)"
    by (simp only: keys_configs [of cmd, symmetric] set_map)
  then show ?thesis by auto
qed

lemma host_values: "host ` snd ` set (configs cmd) =
   {js ''macos-latest'', js ''windows-latest'', js ''ubuntu-22.04''}"
  by (auto simp add: configs_def)

lemma configs_map:
  "configs cmd = map (\<lambda>(k, e0). (k, e0\<lparr>build := cmd @ build e0\<rparr>)) (configs [])"
  by (simp add: configs_def)

lemma suffix_fixed:
  assumes "k \<in> set supported_targets"
  shows "\<exists>sfx \<in> {js '''', js '' --use-napi-cross'', js '' -x'', js '' --use-cross'',
     js '' --use-cross -- -Zbuild-std=core,std,alloc,proc_macro,panic_abort''}.
     \<forall>cmd. \<exists>e. (k, e) \<in> set (configs cmd) \<and> build e = cmd @ js '' --target '' @ k @ sfx"
proof -
  from assms obtain e0 where e0: "(k, e0) \<in> set (configs [])"
    using own_entry by blast
  from build_shape [OF e0] obtain sfx where
    sfx: "sfx \<in> {js '''', js '' --use-napi-cross'', js '' -x'', js '' --use-cross'',
       js '' --use-cross -- -Zbuild-std=core,std,alloc,proc_macro,panic_abort''}"
    and b: "build e0 = [] @ js '' --target '' @ k @ sfx"
    by blast
  have "\<exists>e. (k, e) \<in> set (configs cmd) \<and> build e = cmd @ js '' --target '' @ k @ sfx" for cmd
  proof -
    have "(k, e0\<lparr>build := cmd @ build e0\<rparr>) \<in> (\<lambda>(k, e0). (k, e0\<lparr>build := cmd @ build e0\<rparr>)) ` set (configs [])"
      using e0 by (rule rev_image_eqI) simp
    then have "(k, e0\<lparr>build := cmd @ build e0\<rparr>) \<in> set (configs cmd)"
      by (simp only: configs_map [of cmd] set_map)
    moreover have "build (e0\<lparr>build := cmd @ build e0\<rparr>) = cmd @ js '' --target '' @ k @ sfx"
      using b by simp
    ultimately show ?thesis by blast
  qed
  with sfx show ?thesis by blast
qed

lemma lookup_outside:
  "k \<notin> set supported_targets \<Longrightarrow> k \<notin> set object_prototype_keys \<Longrightarrow> getPlatformConfig k cmd = Null"
proof -
  assume a: "k \<notin> set supported_targets" and b: "k \<notin> set object_prototype_keys"
  from a have "k \<notin> fst ` set (configs cmd)"
    by (simp only: keys_configs [of cmd, symmetric] set_map not_False_eq_True)
  then have "map_of (configs cmd) k = None"
    by (simp add: map_of_eq_None_iff)
  moreover from b have "object_prototype_get k = None"
    by (auto simp add: object_prototype_get_def object_prototype_keys_def)
  ultimately show ?thesis by (simp add: getPlatformConfig_def)
qed

lemma lookup_constructor: "js ''constructor'' \<notin> set supported_targets \<and>
   getPlatformConfig (js ''constructor'') cmd = BuiltinFunction (js ''constructor'')"
  by (simp add: supported_targets_def configs_def getPlatformConfig_def object_prototype_get_def object_prototype_keys_def)

section \<open>Cleaning a target\<close>

lemma is_space_CR_LF: "is_space CR" "is_space LF"
  by (simp_all add: is_space_def CR_def LF_def)

lemma replace_newlines_filter:
  "replace_newlines s = filter (\<lambda>c. c \<noteq> CR \<and> c \<noteq> LF) s"
  by (induction s rule: replace_newlines.induct) (auto simp add: CR_def LF_def)

lemma trim_surrounded:
  assumes pre: "\<forall>c\<in>set pre. is_space c" and post: "\<forall>c\<in>set post. is_space c"
  shows "trim (pre @ s @ post) = trim s"
proof -
  have front: "dropWhile is_space (pre @ s @ post) = dropWhile is_space (s @ post)"
    using pre by (simp add: dropWhile_append2)
  show ?thesis
  proof (cases "\<forall>c\<in>set s. is_space c")
    case True
    with post have "\<forall>c\<in>set (s @ post). is_space c" by auto
    then have a: "dropWhile is_space (s @ post) = []"
      by (simp only: dropWhile_eq_Nil_conv)
    from True have b: "dropWhile is_space s = []"
      by (simp only: dropWhile_eq_Nil_conv)
    show ?thesis by (simp only: trim_def front a b)
  next
    case False
    then obtain x where "x \<in> set s" "\<not> is_space x" by blast
    then have a: "dropWhile is_space (s @ post) = dropWhile is_space s @ post"
      by (rule dropWhile_append1)
    have b: "dropWhile is_space (rev post @ r) = dropWhile is_space r" for r
      by (rule dropWhile_append2) (use post in auto)
    show ?thesis by (simp only: trim_def front a rev_append b)
  qed
qed

lemma last_dropWhile: "dropWhile P xs \<noteq> [] \<Longrightarrow> last (dropWhile P xs) = last xs"
  by (induction xs) (auto split: if_splits)

lemma trim_ends:
  "trim s = [] \<or> (\<not> is_space (hd (trim s)) \<and> \<not> is_space (last (trim s)))"
proof (cases "trim s = []")
  case True
  then show ?thesis by simp
next
  case False
  let ?t = "dropWhile is_space s"
  let ?u = "dropWhile is_space (rev ?t)"
  from False have u: "?u \<noteq> []" by (simp add: trim_def)
  have t: "?t \<noteq> []"
  proof
    assume "?t = []"
    then have "?u = []" by (simp only: rev.simps dropWhile.simps)
    with u show False by contradiction
  qed
  from u have "\<not> is_space (hd ?u)" by (rule hd_dropWhile)
  then have l: "\<not> is_space (last (trim s))"
    using u by (simp add: trim_def last_rev)
  from u have "last ?u = last (rev ?t)" by (rule last_dropWhile)
  also from t have "\<dots> = hd ?t" by (simp add: last_rev)
  finally have "hd (trim s) = hd ?t"
    using u by (simp add: trim_def hd_rev)
  moreover from t have "\<not> is_space (hd ?t)" by (rule hd_dropWhile)
  ultimately show ?thesis using l by simp
qed

lemma hd_filter_keep: "xs \<noteq> [] \<Longrightarrow> P (hd xs) \<Longrightarrow> hd (filter P xs) = hd xs \<and> filter P xs \<noteq> []"
  by (cases xs) simp_all

lemma last_filter_keep: "xs \<noteq> [] \<Longrightarrow> P (last xs) \<Longrightarrow> last (filter P xs) = last xs"
  by (induction xs) (auto split: if_splits simp add: filter_empty_conv)

lemma clean_ends:
  "clean s = [] \<or> (\<not> is_space (hd (clean s)) \<and> \<not> is_space (last (clean s)))"
proof (cases "trim s = []")
  case True
  then show ?thesis by (simp add: clean_def)
next
  case False
  with trim_ends [of s] have e: "\<not> is_space (hd (trim s))" "\<not> is_space (last (trim s))"
    by simp_all
  let ?P = "\<lambda>c. c \<noteq> CR \<and> c \<noteq> LF"
  from e have "?P (hd (trim s))" "?P (last (trim s))"
    using is_space_CR_LF by auto
  with False have "hd (filter ?P (trim s)) = hd (trim s)" "last (filter ?P (trim s)) = last (trim s)"
    using hd_filter_keep [of "trim s" ?P] last_filter_keep [of "trim s" ?P] by simp_all
  with e show ?thesis by (simp add: clean_def replace_newlines_filter)
qed

lemma clean_surrounded:
  "\<forall>c\<in>set pre. is_space c \<Longrightarrow> \<forall>c\<in>set post. is_space c \<Longrightarrow> clean (pre @ s @ post) = clean s"
  by (simp add: clean_def trim_surrounded)

lemma clean_plain: "\<forall>c\<in>set s. \<not> is_space c \<Longrightarrow> clean s = s"
proof -
  assume h: "\<forall>c\<in>set s. \<not> is_space c"
  then have "dropWhile is_space s = s"
    by (cases s) simp_all
  moreover from h have "dropWhile is_space (rev s) = rev s"
    by (cases "rev s") (simp, metis list.set_intros(1) set_rev dropWhile.simps(2))
  ultimately have "trim s = s" by (simp add: trim_def)
  moreover from h have "filter (\<lambda>c. c \<noteq> CR \<and> c \<noteq> LF) s = s"
    using is_space_CR_LF by (auto simp add: filter_id_conv)
  ultimately show ?thesis by (simp add: clean_def replace_newlines_filter)
qed

section \<open>The Generator\<close>

lemma process_targets_strings:
  "process_targets nd cmd (map JStr ts) (items, bad) =
     Inr (items @ filter truthy (map (\<lambda>t. getPlatformConfig (clean t) cmd) ts),
          bad @ filter (\<lambda>t. \<not> truthy (getPlatformConfig t cmd)) (map clean ts))"
  by (induction ts arbitrary: items bad) (simp_all add: Let_def)

lemma process_targets_Inr:
  "process_targets nd cmd xs acc = Inr r \<Longrightarrow> \<exists>ts. xs = map JStr ts"
proof (induction nd cmd xs acc rule: process_targets.induct)
  case (1 nd cmd acc)
  show ?case by simp
next
  case (2 nd cmd tgt rest items bad)
  then have "\<exists>ts. rest = map JStr ts"
    by (auto simp add: Let_def split: if_splits)
  then obtain ts where "rest = map JStr ts" ..
  then have "JStr tgt # rest = map JStr (tgt # ts)" by simp
  then show ?case by (rule exI)
qed simp_all

lemma process_targets_Inl:
  "process_targets nd cmd xs acc = Inl e \<Longrightarrow> \<exists>v. e = TypeError (type_error_message nd v)"
  by (induction nd cmd xs acc rule: process_targets.induct) (auto simp add: Let_def split: if_splits)

lemma truthy_iff: "truthy v \<longleftrightarrow> v \<noteq> Null"
  by (cases v) simp_all

lemma isArray_iff: "isArray v \<longleftrightarrow> (\<exists>xs. v = Some (JArr xs))"
  by (cases v rule: isArray.cases) simp_all

lemma all_resolved:
  "filter (\<lambda>t. \<not> truthy (getPlatformConfig t cmd)) (map clean ts) = [] \<Longrightarrow>
   filter truthy (map (\<lambda>t. getPlatformConfig (clean t) cmd) ts) =
     map (\<lambda>t. getPlatformConfig (clean t) cmd) ts"
  by (induction ts) (simp_all split: if_splits)

lemma try_block_strings:
  assumes "read_manifest nd p = Parsed pj"
    and "napi_targets pj = Some (JArr (map JStr ts))"
    and "ts \<noteq> []"
  shows "try_block nd c p cmd =
     (if unresolved cmd ts \<noteq> [] then (Inl (UnsupportedTargets (unresolved cmd ts)), c)
      else (Inr (), emitted nd c p cmd ts))"
proof -
  let ?items = "filter truthy (map (\<lambda>t. getPlatformConfig (clean t) cmd) ts)"
  have pt: "process_targets nd cmd (map JStr ts) ([], []) = Inr (?items, unresolved cmd ts)"
    by (simp add: process_targets_strings unresolved_def truthy_iff)
  have guard: "\<not> (\<not> json_truthy (Some (JArr (map JStr ts))) \<or> \<not> isArray (Some (JArr (map JStr ts)))
       \<or> length (elements (Some (JArr (map JStr ts)))) = 0)"
    using assms(3) by simp
  have tb: "try_block nd c p cmd =
     (if length (unresolved cmd ts) > 0 then (Inl (UnsupportedTargets (unresolved cmd ts)), c)
      else (Inr (), c\<lparr>outputs := outputs c @
        [(js ''matrix'', stringify_matrix ?items),
         (js ''targets'', stringify_targets (map JStr ts)),
         (js ''binding-directory'', dirname nd p)]\<rparr>))"
    unfolding try_block_def Let_def assms(1) assms(2) manifest_file.case
    using assms(3) by (simp add: pt setOutput_def)
  show ?thesis
  proof (cases "unresolved cmd ts = []")
    case True
    then have "filter (\<lambda>t. \<not> truthy (getPlatformConfig t cmd)) (map clean ts) = []"
      by (simp add: unresolved_def truthy_iff)
    then have "?items = map (\<lambda>t. getPlatformConfig (clean t) cmd) ts"
      by (rule all_resolved)
    with True tb show ?thesis by (simp add: emitted_def)
  next
    case False
    with tb show ?thesis by simp
  qed
qed

lemma try_block_no_targets:
  assumes "read_manifest nd p = Parsed pj"
    and "\<not> (\<exists>xs. napi_targets pj = Some (JArr xs) \<and> xs \<noteq> [])"
  shows "try_block nd c p cmd = (Inl NoTargetsDeclared, c)"
proof -
  from assms(2) have "\<not> json_truthy (napi_targets pj) \<or> \<not> isArray (napi_targets pj)
       \<or> length (elements (napi_targets pj)) = 0"
    by (auto simp add: isArray_iff)
  with assms(1) show ?thesis by (simp add: try_block_def)
qed

lemma try_block_type_error:
  assumes "read_manifest nd p = Parsed pj"
    and "napi_targets pj = Some (JArr xs)" and "xs \<noteq> []"
    and "process_targets nd cmd xs ([], []) = Inl e"
  shows "try_block nd c p cmd = (Inl e, c)"
  using assms by (simp add: try_block_def)

lemma try_block_cases:
  "(\<exists>pj ts. read_manifest nd p = Parsed pj \<and> napi_targets pj = Some (JArr (map JStr ts)) \<and> ts \<noteq> [])
   \<or> (\<exists>e. try_block nd c p cmd = (Inl e, c) \<and> (\<forall>ids. e \<noteq> UnsupportedTargets ids))"
proof (cases "read_manifest nd p")
  case Absent
  then show ?thesis by (simp add: try_block_def)
next
  case (Failing m)
  then show ?thesis by (simp add: try_block_def)
next
  case (Parsed pj)
  show ?thesis
  proof (cases "\<exists>xs. napi_targets pj = Some (JArr xs) \<and> xs \<noteq> []")
    case False
    with Parsed have "try_block nd c p cmd = (Inl NoTargetsDeclared, c)"
      by (rule try_block_no_targets)
    then show ?thesis by simp
  next
    case True
    then obtain xs where xs: "napi_targets pj = Some (JArr xs)" "xs \<noteq> []" by blast
    show ?thesis
    proof (cases "process_targets nd cmd xs ([], [])")
      case (Inl e)
      then obtain v where e: "e = TypeError (type_error_message nd v)"
        using process_targets_Inl by blast
      from Parsed xs Inl have "try_block nd c p cmd = (Inl e, c)"
        by (rule try_block_type_error)
      with e show ?thesis by simp
    next
      case (Inr res)
      then obtain ts where "xs = map JStr ts"
        using process_targets_Inr by blast
      with Parsed xs show ?thesis by auto
    qed
  qed
qed

lemma action_strings:
  assumes "read_manifest nd p = Parsed pj"
    and "napi_targets pj = Some (JArr (map JStr ts))"
    and "ts \<noteq> []"
  shows "action nd c p cmd =
     (if unresolved cmd ts \<noteq> []
      then (Inl (UnsupportedTargets (unresolved cmd ts)),
            setFailed (message (UnsupportedTargets (unresolved cmd ts))) c)
      else (Inr (), emitted nd c p cmd ts))"
  by (simp add: action_def try_block_strings [OF assms])

lemma action_cases:
  "(\<exists>pj ts. read_manifest nd p = Parsed pj \<and> napi_targets pj = Some (JArr (map JStr ts)) \<and>
       ts \<noteq> [] \<and> unresolved cmd ts = [] \<and> action nd c p cmd = (Inr (), emitted nd c p cmd ts))
   \<or> (\<exists>e. action nd c p cmd = (Inl e, setFailed (message e) c))"
proof -
  from try_block_cases [of nd p c cmd] show ?thesis
  proof
    assume "\<exists>pj ts. read_manifest nd p = Parsed pj \<and> napi_targets pj = Some (JArr (map JStr ts)) \<and> ts \<noteq> []"
    then obtain pj ts where h: "read_manifest nd p = Parsed pj"
      "napi_targets pj = Some (JArr (map JStr ts))" "ts \<noteq> []" by blast
    show ?thesis
    proof (cases "unresolved cmd ts = []")
      case True
      with action_strings [OF h, of c cmd] h show ?thesis by auto
    next
      case False
      with action_strings [OF h, of c cmd] show ?thesis by auto
    qed
  next
    assume "\<exists>e. try_block nd c p cmd = (Inl e, c) \<and> (\<forall>ids. e \<noteq> UnsupportedTargets ids)"
    then show ?thesis by (auto simp add: action_def)
  qed
qed

lemma unresolved_empty_iff:
  "unresolved cmd ts = [] \<longleftrightarrow> (\<forall>t\<in>set ts. getPlatformConfig (clean t) cmd \<noteq> Null)"
  by (auto simp add: unresolved_def filter_empty_conv)

lemma set_failed_fields: "outputs (setFailed m c) = outputs c" "failed (setFailed m c) = Some m"
  by (simp_all add: setFailed_def)

lemma stringify_targets_strings:
  "stringify_targets (map JStr ts) = js ''['' @ join (js '','') (map quote ts) @ js '']''"
  by (simp add: stringify_targets_def comp_def)

lemma messages_differ: "message NoTargetsDeclared \<noteq> message (UnsupportedTargets ids)"
  by (simp add: js_Cons unit_inj)

text \<open>What the generator guarantees relative to the value the lookup returns: it
  succeeds only when no lookup gave \<open>null\<close>, fails when one did, and a failure of any
  kind leaves the outputs as they were.\<close>

lemma all_or_nothing:
  "(\<forall>c'. action nd c p cmd = (Inr (), c') \<longrightarrow>
      (\<exists>pj ts. read_manifest nd p = Parsed pj \<and> napi_targets pj = Some (JArr (map JStr ts)) \<and>
          ts \<noteq> [] \<and> (\<forall>t\<in>set ts. getPlatformConfig (clean t) cmd \<noteq> Null))) \<and>
   (\<forall>pj xs t. read_manifest nd p = Parsed pj \<and> napi_targets pj = Some (JArr xs) \<and>
        JStr t \<in> set xs \<and> getPlatformConfig (clean t) cmd = Null \<longrightarrow>
        (\<exists>e. fst (action nd c p cmd) = Inl e)) \<and>
   (\<forall>e c'. action nd c p cmd = (Inl e, c') \<longrightarrow>
        outputs c' = outputs c \<and> failed c' = Some (message e))"
proof -
  have success: "\<exists>pj ts. read_manifest nd p = Parsed pj \<and> napi_targets pj = Some (JArr (map JStr ts)) \<and>
          ts \<noteq> [] \<and> (\<forall>t\<in>set ts. getPlatformConfig (clean t) cmd \<noteq> Null)"
    if "action nd c p cmd = (Inr (), c')" for c'
    using action_cases [of nd p cmd c] that by (auto simp add: unresolved_empty_iff)
  have failure: "\<exists>e. fst (action nd c p cmd) = Inl e"
    if h: "read_manifest nd p = Parsed pj \<and> napi_targets pj = Some (JArr xs) \<and>
        JStr t \<in> set xs \<and> getPlatformConfig (clean t) cmd = Null" for pj xs t
    using action_cases [of nd p cmd c]
  proof
    assume "\<exists>pj ts. read_manifest nd p = Parsed pj \<and> napi_targets pj = Some (JArr (map JStr ts)) \<and>
       ts \<noteq> [] \<and> unresolved cmd ts = [] \<and> action nd c p cmd = (Inr (), emitted nd c p cmd ts)"
    then obtain pj' ts where s: "read_manifest nd p = Parsed pj'"
      "napi_targets pj' = Some (JArr (map JStr ts))" "unresolved cmd ts = []" by blast
    with h have "xs = map JStr ts" by simp
    with h have "t \<in> set ts" by auto
    with s(3) have "getPlatformConfig (clean t) cmd \<noteq> Null"
      by (simp add: unresolved_empty_iff)
    with h show ?thesis by simp
  next
    assume "\<exists>e. action nd c p cmd = (Inl e, setFailed (message e) c)"
    then show ?thesis by auto
  qed
  have no_output: "outputs c' = outputs c \<and> failed c' = Some (message e)"
    if "action nd c p cmd = (Inl e, c')" for e c'
  proof -
    from action_cases [of nd p cmd c] that have "c' = setFailed (message e) c" by auto
    then show ?thesis by (simp add: set_failed_fields)
  qed
  show ?thesis
  proof (intro conjI allI impI)
    fix c' assume "action nd c p cmd = (Inr (), c')"
    then show "\<exists>pj ts. read_manifest nd p = Parsed pj \<and> napi_targets pj = Some (JArr (map JStr ts)) \<and>
          ts \<noteq> [] \<and> (\<forall>t\<in>set ts. getPlatformConfig (clean t) cmd \<noteq> Null)"
      by (rule success)
  next
    fix pj xs t
    assume "read_manifest nd p = Parsed pj \<and> napi_targets pj = Some (JArr xs) \<and>
        JStr t \<in> set xs \<and> getPlatformConfig (clean t) cmd = Null"
    then show "\<exists>e. fst (action nd c p cmd) = Inl e" by (rule failure)
  next
    fix e c' assume "action nd c p cmd = (Inl e, c')"
    with no_output [of e c'] show "outputs c' = outputs c" by simp
  next
    fix e c' assume "action nd c p cmd = (Inl e, c')"
    with no_output [of e c'] show "failed c' = Some (message e)" by simp
  qed
qed

text \<open>The loop does not stop at a \<open>null\<close> lookup: the error carries every cleaned
  identifier whose lookup gave \<open>null\<close>, in the order of the list and with repetitions.\<close>

lemma null_lookups_all_reported:
  assumes "read_manifest nd p = Parsed pj"
    and "napi_targets pj = Some (JArr (map JStr ts))"
    and "bad = filter (\<lambda>t. getPlatformConfig t cmd = Null) (map clean ts)"
  shows "(bad \<noteq> [] \<longrightarrow>
            action nd c p cmd =
              (Inl (UnsupportedTargets bad),
               c\<lparr>failed := Some (js ''Error: Unsupported targets found: '' @ join (js '', '') bad)\<rparr>)) \<and>
         (\<forall>ids c'. action nd c p cmd = (Inl (UnsupportedTargets ids), c') \<longrightarrow> ids = bad \<and> bad \<noteq> [])"
proof (cases "ts = []")
  case True
  with assms(2) have "\<not> (\<exists>xs. napi_targets pj = Some (JArr xs) \<and> xs \<noteq> [])" by simp
  with assms(1) have "try_block nd c p cmd = (Inl NoTargetsDeclared, c)"
    by (rule try_block_no_targets)
  then have "fst (action nd c p cmd) = Inl NoTargetsDeclared" by (simp add: action_def)
  moreover from True assms(3) have "bad = []" by simp
  ultimately show ?thesis by auto
next
  case False
  have b: "bad = unresolved cmd ts" by (simp add: assms(3) unresolved_def)
  from action_strings [OF assms(1) assms(2) False, of c cmd] show ?thesis
    by (auto simp add: b setFailed_def)
qed

section \<open>Evaluating the examples\<close>

lemmas eval_defs = js_def unit_def clean_def trim_def is_space_def CR_def LF_def
  quote_def is_high_surrogate_def is_low_surrogate_def stringify_matrix_def stringify_targets_def
  getPlatformConfig_def configs_def object_prototype_get_def object_prototype_keys_def

lemma example_dirname: "dirname (example_node m) (js ''crates/binding/package.json'') = js ''crates/binding''"
proof -
  have "posix_dirname (js ''crates/binding/package.json'') = js ''crates/binding''"
    by code_simp
  then show ?thesis by (simp add: example_node_def)
qed

lemma example_read: "read_manifest (example_node m) (js ''crates/binding/package.json'') = Parsed m"
  by (simp add: example_node_def)

lemma manifest_targets: "napi_targets (manifest_with_targets ts) = Some (JArr (map JStr ts))"
  by (simp add: manifest_with_targets_def napi_targets_def)

lemma example_action:
  "ts \<noteq> [] \<Longrightarrow>
   action (example_node (manifest_with_targets ts)) c (js ''crates/binding/package.json'') cmd =
     (if unresolved cmd ts \<noteq> []
      then (Inl (UnsupportedTargets (unresolved cmd ts)),
            setFailed (message (UnsupportedTargets (unresolved cmd ts))) c)
      else (Inr (), emitted (example_node (manifest_with_targets ts)) c (js ''crates/binding/package.json'') cmd ts))"
  by (rule action_strings [OF example_read manifest_targets])

lemma end_to_end_unresolved:
  "unresolved (js ''pnpm build --release'') [js ''x86_64-apple-darwin'', js ''aarch64-apple-darwin''] = []"
  by (simp add: unresolved_def eval_defs)

lemma end_to_end_matrix: \<open>stringify_matrix (map (\<lambda>t. getPlatformConfig (clean t) (js ''pnpm build --release''))
     [js ''x86_64-apple-darwin'', js ''aarch64-apple-darwin'']) =
   js ''{"settings":[{"host":"macos-latest","target":"x86_64-apple-darwin","build":"pnpm build --release --target x86_64-apple-darwin"},{"host":"macos-latest","target":"aarch64-apple-darwin","build":"pnpm build --release --target aarch64-apple-darwin"}]}''\<close>
  by (simp add: eval_defs)

lemma end_to_end_targets:
  \<open>stringify_targets (map JStr [js ''x86_64-apple-darwin'', js ''aarch64-apple-darwin'']) =
   js ''["x86_64-apple-darwin","aarch64-apple-darwin"]''\<close>
  by (simp add: eval_defs)

text \<open>The declared list \<open>bogus-a\<close>, \<open>x86_64-apple-darwin\<close>, \<open>bogus-b\<close>: the failure reports
  both \<open>bogus-a\<close> and \<open>bogus-b\<close>.\<close>

lemma aggregation_example:
  "action (example_node (manifest_with_targets [js ''bogus-a'', js ''x86_64-apple-darwin'', js ''bogus-b'']))
     fresh_core (js ''crates/binding/package.json'') (js ''pnpm build'') =
     (Inl (UnsupportedTargets [js ''bogus-a'', js ''bogus-b'']),
      fresh_core\<lparr>failed := Some (js ''Error: Unsupported targets found: bogus-a, bogus-b'')\<rparr>)"
proof -
  have bad: "[js ''bogus-a'', js ''bogus-b''] =
      filter (\<lambda>t. getPlatformConfig t (js ''pnpm build'') = Null)
        (map clean [js ''bogus-a'', js ''x86_64-apple-darwin'', js ''bogus-b''])"
    by (simp add: eval_defs)
  have msg: "js ''Error: Unsupported targets found: '' @ join (js '', '') [js ''bogus-a'', js ''bogus-b''] =
      js ''Error: Unsupported targets found: bogus-a, bogus-b''"
    by (simp add: js_append [symmetric])
  from null_lookups_all_reported [OF example_read manifest_targets bad, of fresh_core, THEN conjunct1]
  show ?thesis by (simp only: msg) simp
qed

section \<open>The claims\<close>

text \<open>
  C1. A Build Plan should be emitted only if every declared identifier resolved in the
  Registry. The manifest that declares \<open>constructor\<close> and \<open>x86_64-apple-darwin\<close> shows
  that the code does not keep to this: \<open>constructor\<close> is no identifier of the table, yet
  \<open>action\<close> succeeds and sets its three outputs, and the plan holds \<open>null\<close> for that
  identifier next to the entry of the supported one. Relative to the value the lookup
  returns, the generator is all-or-nothing (lemma \<open>all_or_nothing\<close>).
\<close>

theorem plan_with_unsupported_identifier:
  \<open>js ''constructor'' \<notin> set supported_targets \<and>
   action (example_node (manifest_with_targets [js ''constructor'', js ''x86_64-apple-darwin'']))
     fresh_core (js ''crates/binding/package.json'') (js ''pnpm build'') =
    (Inr (),
     \<lparr>outputs =
       [(js ''matrix'',
         js ''{"settings":[null,{"host":"macos-latest","target":"x86_64-apple-darwin","build":"pnpm build --target x86_64-apple-darwin"}]}''),
        (js ''targets'', js ''["constructor","x86_64-apple-darwin"]''),
        (js ''binding-directory'', js ''crates/binding'')],
      failed = None\<rparr>)\<close>
proof -
  let ?ts = "[js ''constructor'', js ''x86_64-apple-darwin'']"
  have k: "js ''constructor'' \<notin> set supported_targets"
    by (simp add: supported_targets_def configs_def)
  have u: "unresolved (js ''pnpm build'') ?ts = []"
    by (simp add: unresolved_def eval_defs)
  have n: "?ts \<noteq> []" by simp
  have m: \<open>stringify_matrix (map (\<lambda>t. getPlatformConfig (clean t) (js ''pnpm build'')) ?ts) =
      js ''{"settings":[null,{"host":"macos-latest","target":"x86_64-apple-darwin","build":"pnpm build --target x86_64-apple-darwin"}]}''\<close>
    by (simp add: eval_defs)
  have t: \<open>stringify_targets (map JStr ?ts) = js ''["constructor","x86_64-apple-darwin"]''\<close>
    by (simp add: eval_defs)
  from example_action [OF n, of fresh_core "js ''pnpm build''"]
  have "action (example_node (manifest_with_targets ?ts))
     fresh_core (js ''crates/binding/package.json'') (js ''pnpm build'') =
     (Inr (), emitted (example_node (manifest_with_targets ?ts)) fresh_core
        (js ''crates/binding/package.json'') (js ''pnpm build'') ?ts)"
    by (simp only: u not_not refl if_False simp_thms)
  then have \<open>action (example_node (manifest_with_targets ?ts))
     fresh_core (js ''crates/binding/package.json'') (js ''pnpm build'') =
    (Inr (),
     \<lparr>outputs =
       [(js ''matrix'',
         js ''{"settings":[null,{"host":"macos-latest","target":"x86_64-apple-darwin","build":"pnpm build --target x86_64-apple-darwin"}]}''),
        (js ''targets'', js ''["constructor","x86_64-apple-darwin"]''),
        (js ''binding-directory'', js ''crates/binding'')],
      failed = None\<rparr>)\<close>
    by (simp only: emitted_def m t) (simp add: example_dirname fresh_core_def)
  with k show ?thesis by simp
qed

text \<open>
  C2. The failure message should carry every declared identifier that has no entry in
  the Registry. For the declared list \<open>bogus-a\<close>, \<open>constructor\<close>, \<open>bogus-b\<close>, none of
  which is in the table, \<open>action\<close> fails with \<open>UnsupportedTargets\<close> of \<open>bogus-a\<close> and
  \<open>bogus-b\<close> only: the loop is not cut short, and every identifier whose lookup gave
  \<open>null\<close> is reported (lemma \<open>null_lookups_all_reported\<close>), but the lookup of
  \<open>constructor\<close> did not give \<open>null\<close>.
\<close>

theorem report_omits_unsupported_identifier:
  "js ''bogus-a'' \<notin> set supported_targets \<and>
   js ''constructor'' \<notin> set supported_targets \<and>
   js ''bogus-b'' \<notin> set supported_targets \<and>
   action (example_node (manifest_with_targets [js ''bogus-a'', js ''constructor'', js ''bogus-b'']))
     fresh_core (js ''crates/binding/package.json'') (js ''pnpm build'') =
     (Inl (UnsupportedTargets [js ''bogus-a'', js ''bogus-b'']),
      \<lparr>outputs = [],
       failed = Some (js ''Error: Unsupported targets found: bogus-a, bogus-b'')\<rparr>)"
proof -
  let ?ts = "[js ''bogus-a'', js ''constructor'', js ''bogus-b'']"
  have k: "js ''bogus-a'' \<notin> set supported_targets" "js ''constructor'' \<notin> set supported_targets"
    "js ''bogus-b'' \<notin> set supported_targets"
    by (simp_all add: supported_targets_def configs_def)
  have u: "unresolved (js ''pnpm build'') ?ts = [js ''bogus-a'', js ''bogus-b'']"
    by (simp add: unresolved_def eval_defs)
  have n: "?ts \<noteq> []" by simp
  have msg: "message (UnsupportedTargets [js ''bogus-a'', js ''bogus-b'']) =
      js ''Error: Unsupported targets found: bogus-a, bogus-b''"
    by (simp add: js_append [symmetric])
  from example_action [OF n, of fresh_core "js ''pnpm build''"]
  have "action (example_node (manifest_with_targets ?ts))
     fresh_core (js ''crates/binding/package.json'') (js ''pnpm build'') =
     (Inl (UnsupportedTargets [js ''bogus-a'', js ''bogus-b'']),
      setFailed (js ''Error: Unsupported targets found: bogus-a, bogus-b'') fresh_core)"
    by (simp only: u msg) simp
  then show ?thesis using k by (simp add: setFailed_def fresh_core_def)
qed

text \<open>
  C3. For the declared list \<open>["x86_64-apple-darwin", "aarch64-apple-darwin"]\<close> and the
  base command \<open>pnpm build --release\<close>, \<open>action\<close> succeeds; the \<open>matrix\<close> output is exactly the
  serialised plan with the two \<open>macos-latest\<close> entries in this order, the \<open>targets\<close> output
  is the serialised declared list, and the third output is the directory of the manifest
  path.
\<close>

theorem end_to_end_example:
  assumes "read_manifest nd p = Parsed pj"
    and "napi_targets pj =
           Some (JArr [JStr (js ''x86_64-apple-darwin''), JStr (js ''aarch64-apple-darwin'')])"
  shows \<open>action nd c p (js ''pnpm build --release'') =
    (Inr (),
     c\<lparr>outputs := outputs c @
       [(js ''matrix'',
         js ''{"settings":[{"host":"macos-latest","target":"x86_64-apple-darwin","build":"pnpm build --release --target x86_64-apple-darwin"},{"host":"macos-latest","target":"aarch64-apple-darwin","build":"pnpm build --release --target aarch64-apple-darwin"}]}''),
        (js ''targets'', js ''["x86_64-apple-darwin","aarch64-apple-darwin"]''),
        (js ''binding-directory'', dirname nd p)]\<rparr>)\<close>
proof -
  let ?ts = "[js ''x86_64-apple-darwin'', js ''aarch64-apple-darwin'']"
  from assms(2) have m: "napi_targets pj = Some (JArr (map JStr ?ts))" by simp
  have n: "?ts \<noteq> []" by simp
  from action_strings [OF assms(1) m n, of c "js ''pnpm build --release''"]
  have "action nd c p (js ''pnpm build --release'') =
      (Inr (), emitted nd c p (js ''pnpm build --release'') ?ts)"
    by (simp only: end_to_end_unresolved not_not refl if_False simp_thms)
  then show ?thesis
    by (simp only: emitted_def end_to_end_matrix end_to_end_targets)
qed

theorem end_to_end_example_witness:
  \<open>action (example_node (manifest_with_targets [js ''x86_64-apple-darwin'', js ''aarch64-apple-darwin'']))
     fresh_core (js ''crates/binding/package.json'') (js ''pnpm build --release'') =
    (Inr (),
     \<lparr>outputs =
       [(js ''matrix'',
         js ''{"settings":[{"host":"macos-latest","target":"x86_64-apple-darwin","build":"pnpm build --release --target x86_64-apple-darwin"},{"host":"macos-latest","target":"aarch64-apple-darwin","build":"pnpm build --release --target aarch64-apple-darwin"}]}''),
        (js ''targets'', js ''["x86_64-apple-darwin","aarch64-apple-darwin"]''),
        (js ''binding-directory'', js ''crates/binding'')],
      failed = None\<rparr>)\<close>
proof -
  have t: "napi_targets (manifest_with_targets [js ''x86_64-apple-darwin'', js ''aarch64-apple-darwin'']) =
           Some (JArr [JStr (js ''x86_64-apple-darwin''), JStr (js ''aarch64-apple-darwin'')])"
    by (simp add: manifest_targets)
  from end_to_end_example [OF example_read t, of fresh_core]
  show ?thesis by (simp add: example_dirname fresh_core_def)
qed

text \<open>
  C4. On every successful run the \<open>matrix\<close> output is the serialisation of the list with
  one entry per declared identifier, in the order of the declared list: its i-th entry is
  the lookup of the i-th identifier (cleaned). Nothing is reordered or removed, so a
  repeated identifier gives one entry per occurrence.
\<close>

theorem plan_order_preserved:
  assumes "action nd c p cmd = (Inr (), c')"
  shows "\<exists>pj ts raw dir. read_manifest nd p = Parsed pj \<and>
     napi_targets pj = Some (JArr (map JStr ts)) \<and>
     outputs c' = outputs c @
       [(js ''matrix'', stringify_matrix (map (\<lambda>t. getPlatformConfig (clean t) cmd) ts)),
        (js ''targets'', raw), (js ''binding-directory'', dir)]"
  using action_cases [of nd p cmd c] assms by (auto simp add: emitted_def)

theorem plan_order_preserved_witness:
  \<open>action (example_node (manifest_with_targets
       [js ''aarch64-apple-darwin'', js ''x86_64-apple-darwin'', js ''aarch64-apple-darwin'']))
     fresh_core (js ''crates/binding/package.json'') (js ''b'') =
     (Inr (), emitted (example_node (manifest_with_targets
       [js ''aarch64-apple-darwin'', js ''x86_64-apple-darwin'', js ''aarch64-apple-darwin'']))
       fresh_core (js ''crates/binding/package.json'') (js ''b'')
       [js ''aarch64-apple-darwin'', js ''x86_64-apple-darwin'', js ''aarch64-apple-darwin'']) \<and>
   (\<exists>pj ts raw dir.
      read_manifest (example_node (manifest_with_targets
        [js ''aarch64-apple-darwin'', js ''x86_64-apple-darwin'', js ''aarch64-apple-darwin'']))
        (js ''crates/binding/package.json'') = Parsed pj \<and>
      napi_targets pj = Some (JArr (map JStr ts)) \<and>
      outputs (emitted (example_node (manifest_with_targets
        [js ''aarch64-apple-darwin'', js ''x86_64-apple-darwin'', js ''aarch64-apple-darwin'']))
        fresh_core (js ''crates/binding/package.json'') (js ''b'')
        [js ''aarch64-apple-darwin'', js ''x86_64-apple-darwin'', js ''aarch64-apple-darwin'']) =
      outputs fresh_core @
        [(js ''matrix'', stringify_matrix (map (\<lambda>t. getPlatformConfig (clean t) (js ''b'')) ts)),
         (js ''targets'', raw), (js ''binding-directory'', dir)]) \<and>
   stringify_matrix (map (\<lambda>t. getPlatformConfig (clean t) (js ''b''))
       [js ''aarch64-apple-darwin'', js ''x86_64-apple-darwin'', js ''aarch64-apple-darwin'']) =
     js ''{"settings":[{"host":"macos-latest","target":"aarch64-apple-darwin","build":"b --target aarch64-apple-darwin"},{"host":"macos-latest","target":"x86_64-apple-darwin","build":"b --target x86_64-apple-darwin"},{"host":"macos-latest","target":"aarch64-apple-darwin","build":"b --target aarch64-apple-darwin"}]}''\<close>
proof -
  let ?ts = "[js ''aarch64-apple-darwin'', js ''x86_64-apple-darwin'', js ''aarch64-apple-darwin'']"
  let ?N = "example_node (manifest_with_targets ?ts)"
  let ?P = "js ''crates/binding/package.json''"
  have u: "unresolved (js ''b'') ?ts = []"
    by (simp add: unresolved_def eval_defs)
  have n: "?ts \<noteq> []" by simp
  from example_action [OF n, of fresh_core "js ''b''"]
  have ok: "action ?N fresh_core ?P (js ''b'') = (Inr (), emitted ?N fresh_core ?P (js ''b'') ?ts)"
    by (simp only: u not_not refl if_False simp_thms)
  note ex = plan_order_preserved [OF ok]
  have m: \<open>stringify_matrix (map (\<lambda>t. getPlatformConfig (clean t) (js ''b'')) ?ts) =
     js ''{"settings":[{"host":"macos-latest","target":"aarch64-apple-darwin","build":"b --target aarch64-apple-darwin"},{"host":"macos-latest","target":"x86_64-apple-darwin","build":"b --target x86_64-apple-darwin"},{"host":"macos-latest","target":"aarch64-apple-darwin","build":"b --target aarch64-apple-darwin"}]}''\<close>
    by (simp add: eval_defs)
  from ok ex m show ?thesis by (intro conjI)
qed

text \<open>
  C5. The lookup of \<open>x86_64-unknown-linux-gnu\<close> with the base command \<open>pnpm build\<close> has the
  build invocation \<open>pnpm build --target x86_64-unknown-linux-gnu --use-napi-cross\<close>. For
  every identifier of the table there is one suffix, among the five the table uses and
  the same for every base command, such that the build invocation is the base command,
  then \<open> --target \<close> and the identifier, then that suffix.
\<close>

theorem flag_composition:
  "getPlatformConfig (js ''x86_64-unknown-linux-gnu'') (js ''pnpm build'') =
     Config \<lparr>host = js ''ubuntu-22.04'', target = js ''x86_64-unknown-linux-gnu'',
             build = js ''pnpm build --target x86_64-unknown-linux-gnu --use-napi-cross''\<rparr> \<and>
   (\<forall>k\<in>set supported_targets.
      \<exists>sfx \<in> {js '''', js '' --use-napi-cross'', js '' -x'', js '' --use-cross'',
               js '' --use-cross -- -Zbuild-std=core,std,alloc,proc_macro,panic_abort''}.
        \<forall>cmd. \<exists>e. getPlatformConfig k cmd = Config e \<and>
                   build e = cmd @ js '' --target '' @ k @ sfx)"
proof
  show "getPlatformConfig (js ''x86_64-unknown-linux-gnu'') (js ''pnpm build'') =
     Config \<lparr>host = js ''ubuntu-22.04'', target = js ''x86_64-unknown-linux-gnu'',
             build = js ''pnpm build --target x86_64-unknown-linux-gnu --use-napi-cross''\<rparr>"
    by (simp add: getPlatformConfig_def configs_def js_append [symmetric])
next
  show "\<forall>k\<in>set supported_targets.
      \<exists>sfx \<in> {js '''', js '' --use-napi-cross'', js '' -x'', js '' --use-cross'',
               js '' --use-cross -- -Zbuild-std=core,std,alloc,proc_macro,panic_abort''}.
        \<forall>cmd. \<exists>e. getPlatformConfig k cmd = Config e \<and>
                   build e = cmd @ js '' --target '' @ k @ sfx"
  proof
    fix k assume "k \<in> set supported_targets"
    then obtain sfx where
      s: "sfx \<in> {js '''', js '' --use-napi-cross'', js '' -x'', js '' --use-cross'',
               js '' --use-cross -- -Zbuild-std=core,std,alloc,proc_macro,panic_abort''}"
      and b: "\<forall>cmd. \<exists>e. (k, e) \<in> set (configs cmd) \<and> build e = cmd @ js '' --target '' @ k @ sfx"
      using suffix_fixed by blast
    have "\<exists>e. getPlatformConfig k cmd = Config e \<and> build e = cmd @ js '' --target '' @ k @ sfx" for cmd
    proof -
      from b obtain e where "(k, e) \<in> set (configs cmd)" "build e = cmd @ js '' --target '' @ k @ sfx"
        by blast
      then show ?thesis using lookup_own by blast
    qed
    with s show "\<exists>sfx \<in> {js '''', js '' --use-napi-cross'', js '' -x'', js '' --use-cross'',
               js '' --use-cross -- -Zbuild-std=core,std,alloc,proc_macro,panic_abort''}.
        \<forall>cmd. \<exists>e. getPlatformConfig k cmd = Config e \<and>
                   build e = cmd @ js '' --target '' @ k @ sfx"
      by blast
  qed
qed

theorem flag_composition_witness:
  "js ''aarch64-unknown-freebsd'' \<in> set supported_targets \<and>
   (\<exists>sfx \<in> {js '''', js '' --use-napi-cross'', js '' -x'', js '' --use-cross'',
               js '' --use-cross -- -Zbuild-std=core,std,alloc,proc_macro,panic_abort''}.
        \<forall>cmd. \<exists>e. getPlatformConfig (js ''aarch64-unknown-freebsd'') cmd = Config e \<and>
                   build e = cmd @ js '' --target '' @ js ''aarch64-unknown-freebsd'' @ sfx)"
proof -
  have m: "js ''aarch64-unknown-freebsd'' \<in> set supported_targets"
    by (simp add: supported_targets_def configs_def)
  from flag_composition [THEN conjunct2, THEN bspec, OF m] m show ?thesis by (rule conjI [rotated])
qed

text \<open>
  C6. Before the lookup the loop removes the white space and line terminators around a
  declared identifier: surrounding an identifier with such code units changes neither
  the cleaned identifier, nor the value looked up, nor the run of the loop, and a
  cleaned identifier neither starts nor ends with one of them. The example is
  \<open>x86_64-apple-darwin\<close> followed by a line feed.
\<close>

theorem surrounding_whitespace_removed:
  assumes "\<forall>c\<in>set pre. is_space c" and "\<forall>c\<in>set post. is_space c"
  shows "clean (pre @ s @ post) = clean s \<and>
         (clean s = [] \<or> (\<not> is_space (hd (clean s)) \<and> \<not> is_space (last (clean s)))) \<and>
         getPlatformConfig (clean (pre @ s @ post)) cmd = getPlatformConfig (clean s) cmd \<and>
         process_targets nd cmd (JStr (pre @ s @ post) # rest) acc =
           process_targets nd cmd (JStr s # rest) acc"
proof -
  from assms have c: "clean (pre @ s @ post) = clean s" by (rule clean_surrounded)
  have "process_targets nd cmd (JStr (pre @ s @ post) # rest) acc =
           process_targets nd cmd (JStr s # rest) acc"
    by (cases acc) (simp add: c)
  with c clean_ends [of s] show ?thesis by simp
qed

theorem surrounding_whitespace_removed_witness:
  "is_space LF \<and>
   clean (js ''x86_64-apple-darwin'' @ [LF]) = js ''x86_64-apple-darwin'' \<and>
   getPlatformConfig (clean (js ''x86_64-apple-darwin'' @ [LF])) (js ''pnpm build'') =
     getPlatformConfig (js ''x86_64-apple-darwin'') (js ''pnpm build'') \<and>
   getPlatformConfig (js ''x86_64-apple-darwin'') (js ''pnpm build'') =
     Config \<lparr>host = js ''macos-latest'', target = js ''x86_64-apple-darwin'',
             build = js ''pnpm build --target x86_64-apple-darwin''\<rparr>"
proof -
  have a: "\<forall>c\<in>set []. is_space c" by simp
  have b: "\<forall>c\<in>set [LF]. is_space c" by (simp add: is_space_CR_LF)
  have p: "clean (js ''x86_64-apple-darwin'') = js ''x86_64-apple-darwin''"
    by (rule clean_plain) (simp add: js_def unit_def is_space_def)
  have l: "getPlatformConfig (js ''x86_64-apple-darwin'') (js ''pnpm build'') =
     Config \<lparr>host = js ''macos-latest'', target = js ''x86_64-apple-darwin'',
             build = js ''pnpm build --target x86_64-apple-darwin''\<rparr>"
    by (simp add: getPlatformConfig_def configs_def js_append [symmetric])
  from surrounding_whitespace_removed [OF a b, of "js ''x86_64-apple-darwin''" "js ''pnpm build''"]
  show ?thesis using b p l by simp
qed

text \<open>
  C7. The lookup of an identifier outside the table should give \<open>null\<close>. It does not for
  the identifier \<open>constructor\<close>: the table has no such key, the property read finds the
  member inherited from \<open>Object.prototype\<close>, a function, and \<open>action\<close> on a manifest that
  declares only this identifier succeeds with the plan \<open>{"settings":[null]}\<close>.
\<close>

theorem lookup_inherited_key:
  \<open>js ''constructor'' \<notin> set supported_targets \<and>
   getPlatformConfig (js ''constructor'') (js ''pnpm build'') = BuiltinFunction (js ''constructor'') \<and>
   action (example_node (manifest_with_targets [js ''constructor'']))
     fresh_core (js ''crates/binding/package.json'') (js ''pnpm build'') =
    (Inr (),
     \<lparr>outputs =
       [(js ''matrix'', js ''{"settings":[null]}''),
        (js ''targets'', js ''["constructor"]''),
        (js ''binding-directory'', js ''crates/binding'')],
      failed = None\<rparr>)\<close>
proof -
  have u: "unresolved (js ''pnpm build'') [js ''constructor''] = []"
    by (simp add: unresolved_def eval_defs)
  have n: "[js ''constructor''] \<noteq> []" by simp
  have m: \<open>stringify_matrix (map (\<lambda>t. getPlatformConfig (clean t) (js ''pnpm build'')) [js ''constructor'']) =
      js ''{"settings":[null]}''\<close>
    by (simp add: eval_defs)
  have t: \<open>stringify_targets (map JStr [js ''constructor'']) = js ''["constructor"]''\<close>
    by (simp add: eval_defs)
  from example_action [OF n, of fresh_core "js ''pnpm build''"]
  have "action (example_node (manifest_with_targets [js ''constructor'']))
     fresh_core (js ''crates/binding/package.json'') (js ''pnpm build'') =
     (Inr (), emitted (example_node (manifest_with_targets [js ''constructor''])) fresh_core
        (js ''crates/binding/package.json'') (js ''pnpm build'') [js ''constructor''])"
    by (simp only: u not_not refl if_False simp_thms)
  then have \<open>action (example_node (manifest_with_targets [js ''constructor'']))
     fresh_core (js ''crates/binding/package.json'') (js ''pnpm build'') =
    (Inr (),
     \<lparr>outputs =
       [(js ''matrix'', js ''{"settings":[null]}''),
        (js ''targets'', js ''["constructor"]''),
        (js ''binding-directory'', js ''crates/binding'')],
      failed = None\<rparr>)\<close>
    by (simp only: emitted_def m t) (simp add: example_dirname fresh_core_def)
  with lookup_constructor [of "js ''pnpm build''"] show ?thesis by simp
qed

text \<open>
  C8. When the manifest parses and \<open>packageJson?.napi?.targets\<close> is missing
  (\<open>undefined\<close>), is not an array, or is the empty array, \<open>action\<close> fails with
  \<open>NoTargetsDeclared\<close> and the message \<open>Error: No napi.targets found in package.json\<close>,
  leaving the outputs as they were. This error and its message differ from every
  \<open>UnsupportedTargets\<close> error and message.
\<close>

theorem no_targets_declared:
  assumes "read_manifest nd p = Parsed pj"
    and "napi_targets pj = None \<or> (\<forall>xs. napi_targets pj \<noteq> Some (JArr xs)) \<or>
         napi_targets pj = Some (JArr [])"
  shows "action nd c p cmd =
           (Inl NoTargetsDeclared,
            c\<lparr>failed := Some (js ''Error: No napi.targets found in package.json'')\<rparr>) \<and>
         (\<forall>ids. NoTargetsDeclared \<noteq> UnsupportedTargets ids \<and>
                message NoTargetsDeclared \<noteq> message (UnsupportedTargets ids))"
proof -
  from assms(2) have "\<not> (\<exists>xs. napi_targets pj = Some (JArr xs) \<and> xs \<noteq> [])" by auto
  with assms(1) have "try_block nd c p cmd = (Inl NoTargetsDeclared, c)"
    by (rule try_block_no_targets)
  then have "action nd c p cmd =
           (Inl NoTargetsDeclared,
            c\<lparr>failed := Some (js ''Error: No napi.targets found in package.json'')\<rparr>)"
    by (simp add: action_def setFailed_def)
  with messages_differ show ?thesis by simp
qed

theorem no_targets_declared_witness:
  "napi_targets (JObj [(js ''napi'', JObj [])]) = None \<and>
   action (example_node (JObj [(js ''napi'', JObj [])])) fresh_core
     (js ''crates/binding/package.json'') (js ''pnpm build'') =
     (Inl NoTargetsDeclared,
      fresh_core\<lparr>failed := Some (js ''Error: No napi.targets found in package.json'')\<rparr>)"
proof -
  have n: "napi_targets (JObj [(js ''napi'', JObj [])]) = None"
    by (simp add: napi_targets_def)
  then have d: "napi_targets (JObj [(js ''napi'', JObj [])]) = None \<or>
      (\<forall>xs. napi_targets (JObj [(js ''napi'', JObj [])]) \<noteq> Some (JArr xs)) \<or>
      napi_targets (JObj [(js ''napi'', JObj [])]) = Some (JArr [])"
    by (rule disjI1)
  from no_targets_declared [OF example_read d, of fresh_core "js ''pnpm build''"] n
  show ?thesis by simp
qed

text \<open>
  C9. On every successful run the \<open>targets\<close> output is the serialisation of the declared
  strings as they stand in the manifest (each one quoted as it is, not cleaned), and the
  \<open>binding-directory\<close> output is \<open>path.dirname\<close> of the manifest path.
\<close>

theorem raw_targets_and_directory:
  assumes "action nd c p cmd = (Inr (), c')"
  shows "\<exists>pj ts matrix. read_manifest nd p = Parsed pj \<and>
     napi_targets pj = Some (JArr (map JStr ts)) \<and>
     outputs c' = outputs c @
       [(js ''matrix'', matrix),
        (js ''targets'', js ''['' @ join (js '','') (map quote ts) @ js '']''),
        (js ''binding-directory'', dirname nd p)]"
  using action_cases [of nd p cmd c] assms
  by (auto simp add: emitted_def stringify_targets_strings)

theorem raw_targets_and_directory_witness:
  \<open>action (example_node (manifest_with_targets [js ''x86_64-apple-darwin'' @ [LF]]))
     fresh_core (js ''crates/binding/package.json'') (js ''b'') =
     (Inr (), emitted (example_node (manifest_with_targets [js ''x86_64-apple-darwin'' @ [LF]]))
       fresh_core (js ''crates/binding/package.json'') (js ''b'') [js ''x86_64-apple-darwin'' @ [LF]]) \<and>
   (\<exists>pj ts matrix.
      read_manifest (example_node (manifest_with_targets [js ''x86_64-apple-darwin'' @ [LF]]))
        (js ''crates/binding/package.json'') = Parsed pj \<and>
      napi_targets pj = Some (JArr (map JStr ts)) \<and>
      outputs (emitted (example_node (manifest_with_targets [js ''x86_64-apple-darwin'' @ [LF]]))
        fresh_core (js ''crates/binding/package.json'') (js ''b'') [js ''x86_64-apple-darwin'' @ [LF]]) =
      outputs fresh_core @
        [(js ''matrix'', matrix),
         (js ''targets'', js ''['' @ join (js '','') (map quote ts) @ js '']''),
         (js ''binding-directory'',
          dirname (example_node (manifest_with_targets [js ''x86_64-apple-darwin'' @ [LF]]))
            (js ''crates/binding/package.json''))]) \<and>
   outputs (emitted (example_node (manifest_with_targets [js ''x86_64-apple-darwin'' @ [LF]]))
       fresh_core (js ''crates/binding/package.json'') (js ''b'') [js ''x86_64-apple-darwin'' @ [LF]]) =
     [(js ''matrix'', js ''{"settings":[{"host":"macos-latest","target":"x86_64-apple-darwin","build":"b --target x86_64-apple-darwin"}]}''),
      (js ''targets'', js ''["x86_64-apple-darwin'' @ [0x5C, 0x6E] @ js ''"]''),
      (js ''binding-directory'', js ''crates/binding'')]\<close>
proof -
  let ?ts = "[js ''x86_64-apple-darwin'' @ [LF]]"
  let ?N = "example_node (manifest_with_targets ?ts)"
  let ?P = "js ''crates/binding/package.json''"
  have u: "unresolved (js ''b'') ?ts = []"
    by (simp add: unresolved_def eval_defs)
  have n: "?ts \<noteq> []" by simp
  from example_action [OF n, of fresh_core "js ''b''"]
  have ok: "action ?N fresh_core ?P (js ''b'') = (Inr (), emitted ?N fresh_core ?P (js ''b'') ?ts)"
    by (simp only: u not_not refl if_False simp_thms)
  note ex = raw_targets_and_directory [OF ok]
  have m: \<open>stringify_matrix (map (\<lambda>t. getPlatformConfig (clean t) (js ''b'')) ?ts) =
     js ''{"settings":[{"host":"macos-latest","target":"x86_64-apple-darwin","build":"b --target x86_64-apple-darwin"}]}''\<close>
    by (simp add: eval_defs)
  have t: \<open>stringify_targets (map JStr ?ts) = js ''["x86_64-apple-darwin'' @ [0x5C, 0x6E] @ js ''"]''\<close>
    by (simp add: eval_defs)
  have out: \<open>outputs (emitted ?N fresh_core ?P (js ''b'') ?ts) =
     [(js ''matrix'', js ''{"settings":[{"host":"macos-latest","target":"x86_64-apple-darwin","build":"b --target x86_64-apple-darwin"}]}''),
      (js ''targets'', js ''["x86_64-apple-darwin'' @ [0x5C, 0x6E] @ js ''"]''),
      (js ''binding-directory'', js ''crates/binding'')]\<close>
    by (simp only: emitted_def m t) (simp add: example_dirname fresh_core_def)
  from ok ex out show ?thesis by (intro conjI)
qed

text \<open>
  C10. For every identifier of the Registry's table and every base build command, the
  lookup returns an entry whose host is one of \<open>macos-latest\<close>, \<open>windows-latest\<close> and
  \<open>ubuntu-22.04\<close> and whose target is the identifier itself; these three hosts are
  exactly the hosts of the table.
\<close>

theorem registry_host_and_target:
  "(k \<in> set supported_targets \<longrightarrow>
      (\<exists>e. getPlatformConfig k cmd = Config e \<and>
           host e \<in> {js ''macos-latest'', js ''windows-latest'', js ''ubuntu-22.04''} \<and>
           target e = k)) \<and>
   host ` snd ` set (configs cmd) = {js ''macos-latest'', js ''windows-latest'', js ''ubuntu-22.04''}"
proof (intro conjI impI)
  assume "k \<in> set supported_targets"
  then obtain e where e: "(k, e) \<in> set (configs cmd)"
    using own_entry by blast
  from e have "getPlatformConfig k cmd = Config e" by (rule lookup_own)
  with hosts [OF e] show "\<exists>e. getPlatformConfig k cmd = Config e \<and>
           host e \<in> {js ''macos-latest'', js ''windows-latest'', js ''ubuntu-22.04''} \<and>
           target e = k" by blast
next
  show "host ` snd ` set (configs cmd) = {js ''macos-latest'', js ''windows-latest'', js ''ubuntu-22.04''}"
    by (rule host_values)
qed

theorem registry_host_and_target_witness:
  "js ''i686-pc-windows-msvc'' \<in> set supported_targets \<and>
   (\<exists>e. getPlatformConfig (js ''i686-pc-windows-msvc'') (js ''pnpm build'') = Config e \<and>
        host e \<in> {js ''macos-latest'', js ''windows-latest'', js ''ubuntu-22.04''} \<and>
        target e = js ''i686-pc-windows-msvc'')"
  using registry_host_and_target [of "js ''i686-pc-windows-msvc''" "js ''pnpm build''"]
  by (simp add: supported_targets_def configs_def)

end
